theory Spec2Isabelle
  imports Complex_Main
begin

section \<open>JavaScript values\<close>

text \<open>
  The entry payloads, repeater rows, visibility rules and view configurations of the
  program are JSON-like JavaScript values. Numbers are restricted to integer values
  (where a JavaScript double is exact); strings are lists of 8-bit code units and are read
  as ASCII. An object is an association list of its own properties, looked up by first
  match; members inherited from a prototype are not part of the model.
\<close>

datatype jsval =
    JUndefined
  | JNull
  | JBool bool
  | JNum int
  | JStr string
  | JArr "jsval list"
  | JObj "(string \<times> jsval) list"

text \<open>Truthiness, as used by \<open>||\<close>, \<open>&&\<close>, \<open>!\<close> and \<open>filter(Boolean)\<close>.\<close>

fun truthy :: "jsval \<Rightarrow> bool" where
  "truthy JUndefined = False"
| "truthy JNull = False"
| "truthy (JBool b) = b"
| "truthy (JNum n) = (n \<noteq> 0)"
| "truthy (JStr s) = (s \<noteq> [])"
| "truthy (JArr xs) = True"
| "truthy (JObj kvs) = True"

definition js_or :: "jsval \<Rightarrow> jsval \<Rightarrow> jsval" where
  "js_or a b = (if truthy a then a else b)"

text \<open>\<open>v == null\<close>: true of \<open>null\<close> and \<open>undefined\<close> only.\<close>

fun isNullish :: "jsval \<Rightarrow> bool" where
  "isNullish JUndefined = True"
| "isNullish JNull = True"
| "isNullish v = False"

subsection \<open>Strings\<close>

definition isWs :: "char \<Rightarrow> bool" where
  "isWs c = (c \<in> set [CHR 0x09, CHR 0x0A, CHR 0x0B, CHR 0x0C, CHR 0x0D, CHR 0x20])"

definition trim :: "string \<Rightarrow> string" where
  "trim s = rev (dropWhile isWs (rev (dropWhile isWs s)))"


definition isUpperAZ :: "char \<Rightarrow> bool" where
  "isUpperAZ c = (65 \<le> (of_char c :: nat) \<and> (of_char c :: nat) \<le> 90)"

definition toLowerChar :: "char \<Rightarrow> char" where
  "toLowerChar c = (if isUpperAZ c then char_of (of_char c + 32 :: nat) else c)"


definition toLowerCase :: "string \<Rightarrow> string" where
  "toLowerCase s = map toLowerChar s"

definition isDigit :: "char \<Rightarrow> bool" where
  "isDigit c = (c \<in> set ''0123456789'')"

fun startsWith :: "string \<Rightarrow> string \<Rightarrow> bool" where
  "startsWith s [] = True"
| "startsWith [] (p # ps) = False"
| "startsWith (c # cs) (p # ps) = (c = p \<and> startsWith cs ps)"

text \<open>\<open>s.includes(sub)\<close>.\<close>

fun strIncludes :: "string \<Rightarrow> string \<Rightarrow> bool" where
  "strIncludes [] sub = (sub = [])"
| "strIncludes (c # cs) sub = (startsWith (c # cs) sub \<or> strIncludes cs sub)"

text \<open>The relational operators on two strings compare code units, left to right.\<close>

fun strLess :: "string \<Rightarrow> string \<Rightarrow> bool" where
  "strLess [] [] = False"
| "strLess [] (b # bs) = True"
| "strLess (a # as) [] = False"
| "strLess (a # as) (b # bs) =
     (if a = b then strLess as bs else (of_char a :: nat) < of_char b)"

text \<open>\<open>a <= b\<close> on strings is the negation of \<open>b < a\<close>.\<close>

definition strLessEq :: "string \<Rightarrow> string \<Rightarrow> bool" where
  "strLessEq a b = (\<not> strLess b a)"

subsection \<open>Conversions\<close>

definition digitChar :: "nat \<Rightarrow> char" where
  "digitChar d = ''0123456789'' ! (d mod 10)"

fun showNat :: "nat \<Rightarrow> string" where
  "showNat n = (if n < 10 then [digitChar n] else showNat (n div 10) @ [digitChar (n mod 10)])"

declare showNat.simps [simp del]

definition showInt :: "int \<Rightarrow> string" where
  "showInt i = (if i < 0 then CHR ''-'' # showNat (nat (- i)) else showNat (nat i))"

fun joinWith :: "string \<Rightarrow> string list \<Rightarrow> string" where
  "joinWith sep [] = []"
| "joinWith sep [x] = x"
| "joinWith sep (x # y # ys) = x @ sep @ joinWith sep (y # ys)"

text \<open>\<open>String(v)\<close>. An array joins the string forms of its elements with a comma, the
  empty string standing for \<open>null\<close> and \<open>undefined\<close> elements.\<close>

fun toString :: "jsval \<Rightarrow> string" where
  "toString JUndefined = ''undefined''"
| "toString JNull = ''null''"
| "toString (JBool b) = (if b then ''true'' else ''false'')"
| "toString (JNum n) = showInt n"
| "toString (JStr s) = s"
| "toString (JArr xs) =
     joinWith '','' (map (\<lambda>x. if isNullish x then [] else toString x) xs)"
| "toString (JObj kvs) = ''[object Object]''"

definition digitVal :: "char \<Rightarrow> nat" where
  "digitVal c = (of_char c - of_char CHR ''0'')"

definition digitsVal :: "string \<Rightarrow> nat" where
  "digitsVal ds = foldl (\<lambda>acc c. 10 * acc + digitVal c) 0 ds"

definition allDigits :: "string \<Rightarrow> bool" where
  "allDigits ds = (ds \<noteq> [] \<and> list_all isDigit ds)"

text \<open>The numeric value of a string, \<open>None\<close> for \<open>NaN\<close>: surrounding white space is
  dropped, the empty string is 0, and an optionally signed run of decimal digits is its
  value. Literals with a fraction, an exponent or a radix prefix, and \<open>Infinity\<close>, denote
  numbers outside the integer fragment modelled here.\<close>

definition parseNumber :: "string \<Rightarrow> int option" where
  "parseNumber s =
     (let t = trim s in
      case t of
        [] \<Rightarrow> Some 0
      | c # ds \<Rightarrow>
          if c = CHR ''-'' then (if allDigits ds then Some (- int (digitsVal ds)) else None)
          else if c = CHR ''+'' then (if allDigits ds then Some (int (digitsVal ds)) else None)
          else if allDigits t then Some (int (digitsVal t)) else None)"

text \<open>\<open>Number(v)\<close>, \<open>None\<close> for \<open>NaN\<close>. Arrays and objects convert through their string form.\<close>

fun toNumber :: "jsval \<Rightarrow> int option" where
  "toNumber JUndefined = None"
| "toNumber JNull = Some 0"
| "toNumber (JBool b) = Some (if b then 1 else 0)"
| "toNumber (JNum n) = Some n"
| "toNumber (JStr s) = parseNumber s"
| "toNumber (JArr xs) = parseNumber (toString (JArr xs))"
| "toNumber (JObj kvs) = parseNumber (toString (JObj kvs))"

subsection \<open>Property access\<close>

text \<open>An array index is the decimal numeral of a natural number, without leading zeros.\<close>

definition parseIndex :: "string \<Rightarrow> nat option" where
  "parseIndex k =
     (if allDigits k \<and> (k = ''0'' \<or> hd k \<noteq> CHR ''0'') then Some (digitsVal k) else None)"

text \<open>\<open>v[k]\<close> on a value that is neither \<open>null\<close> nor \<open>undefined\<close>: own properties of an
  object, elements and \<open>length\<close> of an array, code units and \<open>length\<close> of a string.\<close>

fun member :: "jsval \<Rightarrow> string \<Rightarrow> jsval" where
  "member (JObj kvs) k = (case map_of kvs k of Some v \<Rightarrow> v | None \<Rightarrow> JUndefined)"
| "member (JArr xs) k =
     (if k = ''length'' then JNum (int (length xs))
      else case parseIndex k of
             Some i \<Rightarrow> (if i < length xs then xs ! i else JUndefined)
           | None \<Rightarrow> JUndefined)"
| "member (JStr s) k =
     (if k = ''length'' then JNum (int (length s))
      else case parseIndex k of
             Some i \<Rightarrow> (if i < length s then JStr [s ! i] else JUndefined)
           | None \<Rightarrow> JUndefined)"
| "member v k = JUndefined"

text \<open>\<open>v?.[k]\<close>: \<open>undefined\<close> when \<open>v\<close> is \<open>null\<close> or \<open>undefined\<close>.\<close>

definition optMember :: "jsval \<Rightarrow> string \<Rightarrow> jsval" where
  "optMember v k = (if isNullish v then JUndefined else member v k)"

text \<open>\<open>Array.isArray(v) ? v : []\<close>.\<close>

fun coerceArray :: "jsval \<Rightarrow> jsval list" where
  "coerceArray (JArr xs) = xs"
| "coerceArray v = []"

section \<open>Repeater rows: conditional visibility\<close>

text \<open>\<open>isEmptyValue\<close> of the field editor: \<open>null\<close>, \<open>undefined\<close>, a blank string, an empty
  array and an object without keys are empty.\<close>

fun isEmptyValue :: "jsval \<Rightarrow> bool" where
  "isEmptyValue JUndefined = True"
| "isEmptyValue JNull = True"
| "isEmptyValue (JStr s) = (trim s = [])"
| "isEmptyValue (JArr xs) = (length xs = 0)"
| "isEmptyValue (JObj kvs) = (length (map fst kvs) = 0)"
| "isEmptyValue v = False"

text \<open>The string form that \<open>cmp\<close> gives each side: empty for \<open>null\<close> and \<open>undefined\<close>.\<close>

definition cmpStr :: "jsval \<Rightarrow> string" where
  "cmpStr v = (if isNullish v then [] else toString v)"

text \<open>What \<open>evalRule\<close> reads from a rule: \<open>String(rule?.ifKey || "").trim()\<close>,
  \<open>String(rule?.op || "equals").trim()\<close> and \<open>rule?.value\<close>.\<close>

definition ruleIfKey :: "jsval \<Rightarrow> string" where
  "ruleIfKey rule = trim (toString (js_or (optMember rule ''ifKey'') (JStr [])))"

definition ruleOp :: "jsval \<Rightarrow> string" where
  "ruleOp rule = trim (toString (js_or (optMember rule ''op'') (JStr ''equals'')))"

definition ruleValue :: "jsval \<Rightarrow> jsval" where
  "ruleValue rule = optMember rule ''value''"

definition ruleActual :: "jsval \<Rightarrow> jsval \<Rightarrow> jsval" where
  "ruleActual row rule =
     (let ifKey = ruleIfKey rule in if ifKey \<noteq> [] then optMember row ifKey else JUndefined)"

definition evalRule :: "jsval \<Rightarrow> jsval \<Rightarrow> bool" where
  "evalRule row rule =
     (let op = ruleOp rule;
          val = ruleValue rule;
          actual = ruleActual row rule
      in if op = ''truthy'' then \<not> isEmptyValue actual
         else if op = ''falsy'' then isEmptyValue actual
         else
           let sa = cmpStr actual;
               sb = cmpStr val;
               na = toNumber actual;
               nb = toNumber val;
               both = (na \<noteq> None \<and> nb \<noteq> None)
           in if op = ''equals'' then sa = sb
              else if op = ''not_equals'' then sa \<noteq> sb
              else if op = ''contains'' then strIncludes (toLowerCase sa) (toLowerCase sb)
              else if op = ''not_contains'' then \<not> strIncludes (toLowerCase sa) (toLowerCase sb)
              else if op = ''gt'' then (if both then the na > the nb else strLess sb sa)
              else if op = ''gte'' then (if both then the na \<ge> the nb else strLessEq sb sa)
              else if op = ''lt'' then (if both then the na < the nb else strLess sa sb)
              else if op = ''lte'' then (if both then the na \<le> the nb else strLessEq sa sb)
              else sa = sb)"

text \<open>The key of a subfield, \<open>String(sf?.field_key || sf?.key || "").trim()\<close>, and the key
  a target names, \<open>String(t || "").trim()\<close>.\<close>

definition subfieldKey :: "jsval \<Rightarrow> string" where
  "subfieldKey sf =
     trim (toString (js_or (js_or (optMember sf ''field_key'') (optMember sf ''key'')) (JStr [])))"

definition targetKey :: "jsval \<Rightarrow> string" where
  "targetKey t = trim (toString (js_or t (JStr [])))"

definition ruleTargetList :: "jsval \<Rightarrow> jsval list" where
  "ruleTargetList r = coerceArray (optMember r ''targets'')"

definition ruleAction :: "jsval \<Rightarrow> string" where
  "ruleAction r = toString (js_or (optMember r ''action'') (JStr ''show''))"



text \<open>The first loop of \<open>computeSubfieldVisibility\<close>: every keyed subfield is visible.\<close>

fun initVis :: "(string \<rightharpoonup> bool) \<Rightarrow> jsval list \<Rightarrow> (string \<rightharpoonup> bool)" where
  "initVis vis [] = vis"
| "initVis vis (sf # sfs) =
     (let k = subfieldKey sf in initVis (if k \<noteq> [] then vis(k \<mapsto> True) else vis) sfs)"

text \<open>The inner loop over the targets of a matching rule.\<close>

fun applyTargets :: "string \<Rightarrow> (string \<rightharpoonup> bool) \<Rightarrow> jsval list \<Rightarrow> (string \<rightharpoonup> bool)" where
  "applyTargets action vis [] = vis"
| "applyTargets action vis (t # ts) =
     (let k = targetKey t
      in if k = [] then applyTargets action vis ts
         else if action = ''hide'' then applyTargets action (vis(k \<mapsto> False)) ts
         else applyTargets action (vis(k \<mapsto> True)) ts)"

text \<open>The loop over the rules, in their declared order.\<close>

fun applyRules :: "jsval \<Rightarrow> (string \<rightharpoonup> bool) \<Rightarrow> jsval list \<Rightarrow> (string \<rightharpoonup> bool)" where
  "applyRules row vis [] = vis"
| "applyRules row vis (r # rs) =
     (if \<not> evalRule row r then applyRules row vis rs
      else applyRules row (applyTargets (ruleAction r) vis (ruleTargetList r)) rs)"

definition computeSubfieldVisibility :: "jsval list \<Rightarrow> jsval \<Rightarrow> jsval \<Rightarrow> (string \<rightharpoonup> bool)" where
  "computeSubfieldVisibility subfields rules row =
     applyRules row (initVis Map.empty subfields) (coerceArray rules)"



section \<open>The repeater field\<close>

text \<open>
  What \<open>RepeaterField\<close> derives from its configuration and properties. A bound is present
  when the configured value is a finite number (\<open>Number.isFinite\<close>), which need not be an
  integer; \<open>maxDepth\<close> is 2 when not configured; \<open>depth\<close> is 1 for the outermost repeater.
\<close>

record repeater =
  subfields :: "jsval list"
  rules :: jsval
  minRows :: "rat option"
  maxRows :: "rat option"
  maxDepth :: rat
  depth :: nat

text \<open>\<open>Number.isFinite(cfg.maxDepth) ? Number(cfg.maxDepth) : 2\<close>.\<close>

definition maxDepthOf :: "rat option \<Rightarrow> rat" where
  "maxDepthOf configured = (case configured of Some d \<Rightarrow> d | None \<Rightarrow> 2)"

text \<open>The rows shown: \<open>coerceArray(value).map((r) => (r && typeof r === "object" ? r : {}))\<close>.\<close>

fun rowOf :: "jsval \<Rightarrow> jsval" where
  "rowOf (JObj kvs) = JObj kvs"
| "rowOf (JArr xs) = JArr xs"
| "rowOf v = JObj []"

definition rowsOf :: "jsval \<Rightarrow> jsval list" where
  "rowsOf v = map rowOf (coerceArray v)"

subsection \<open>Adding and removing rows\<close>

text \<open>Each operation returns the rows handed to \<open>onChange\<close>, or the rows as they are when
  it returns early.\<close>

definition addRow :: "repeater \<Rightarrow> jsval list \<Rightarrow> jsval list" where
  "addRow rp rows =
     (case maxRows rp of
        Some mx \<Rightarrow> if of_nat (length rows) \<ge> mx then rows else rows @ [JObj []]
      | None \<Rightarrow> rows @ [JObj []])"

definition removeRow :: "repeater \<Rightarrow> nat \<Rightarrow> jsval list \<Rightarrow> jsval list" where
  "removeRow rp i rows =
     (let kept = map snd (filter (\<lambda>p. fst p \<noteq> i) (enumerate 0 rows))
      in case minRows rp of
           Some mn \<Rightarrow> if of_nat (length rows) \<le> mn then rows else kept
         | None \<Rightarrow> kept)"

datatype rowOp = Append | Remove nat

fun applyOp :: "repeater \<Rightarrow> jsval list \<Rightarrow> rowOp \<Rightarrow> jsval list" where
  "applyOp rp rows Append = addRow rp rows"
| "applyOp rp rows (Remove i) = removeRow rp i rows"

fun applyOps :: "repeater \<Rightarrow> jsval list \<Rightarrow> rowOp list \<Rightarrow> jsval list" where
  "applyOps rp rows [] = rows"
| "applyOps rp rows (x # xs) = applyOps rp (applyOp rp rows x) xs"

text \<open>A row count lies within the configured bounds; an absent bound does not constrain.\<close>

definition withinBounds :: "repeater \<Rightarrow> nat \<Rightarrow> bool" where
  "withinBounds rp n =
     ((case minRows rp of Some mn \<Rightarrow> mn \<le> of_nat n | None \<Rightarrow> True) \<and>
      (case maxRows rp of Some mx \<Rightarrow> of_nat n \<le> mx | None \<Rightarrow> True))"

definition integerBound :: "rat option \<Rightarrow> bool" where
  "integerBound b = (case b of Some q \<Rightarrow> q \<in> \<int> | None \<Rightarrow> True)"

subsection \<open>Rendering one subfield of a row\<close>

text \<open>Object spread \<open>{...v}\<close>: the own enumerable properties of \<open>v\<close>.\<close>

fun spread :: "jsval \<Rightarrow> (string \<times> jsval) list" where
  "spread (JObj kvs) = kvs"
| "spread (JArr xs) = zip (map showNat [0..<length xs]) xs"
| "spread (JStr s) = zip (map showNat [0..<length s]) (map (\<lambda>c. JStr [c]) s)"
| "spread v = []"

text \<open>Assignment to a property: in place when the key exists, appended otherwise.\<close>

fun setProp :: "(string \<times> 'v) list \<Rightarrow> string \<Rightarrow> 'v \<Rightarrow> (string \<times> 'v) list" where
  "setProp [] k v = [(k, v)]"
| "setProp ((k', v') # kvs) k v = (if k' = k then (k, v) # kvs else (k', v') # setProp kvs k v)"

text \<open>
  The outcome of \<open>renderSubfieldCell\<close>: nothing (\<open>null\<close>), the inert notice
  "Nested repeater disabled at depth ...", or a \<open>FieldInput\<close> for the subfield, given the
  field definition, the current value, the row index and key its \<open>onChange\<close> writes to, and
  the \<open>_repeaterDepth\<close> handed down.
\<close>

datatype cell =
    NoCell
  | InertNotice nat
  | InputCell jsval jsval nat string nat

definition canNestMore :: "repeater \<Rightarrow> bool" where
  "canNestMore rp = (of_nat (depth rp) < maxDepth rp)"

definition renderSubfieldCell :: "repeater \<Rightarrow> jsval \<Rightarrow> nat \<Rightarrow> jsval \<Rightarrow> cell" where
  "renderSubfieldCell rp sf rowIndex row =
     (let key = subfieldKey sf
      in if key = [] then NoCell
         else
           let visibility = computeSubfieldVisibility (subfields rp) (rules rp) row
           in if visibility key = Some False then NoCell
              else
                let def = JObj (setProp (spread sf) ''key'' (JStr key));
                    sfType = toLowerCase (toString (js_or (member def ''type'') (JStr ''text'')))
                in if sfType = ''repeater'' \<and> \<not> canNestMore rp then InertNotice (depth rp)
                   else InputCell def (optMember row key) rowIndex key (depth rp + 1))"

text \<open>\<open>setRow(i, patch)\<close> with the one-key patch \<open>{[key]: nextVal}\<close>; writing past the end
  leaves holes before the new row.\<close>

definition setRow :: "nat \<Rightarrow> string \<Rightarrow> jsval \<Rightarrow> jsval list \<Rightarrow> jsval list" where
  "setRow i key nextVal rows =
     (if i < length rows
      then rows[i := JObj (setProp (spread (if truthy (rows ! i) then rowOf (rows ! i) else JObj [])) key nextVal)]
      else rows @ replicate (i - length rows) JUndefined @ [JObj [(key, nextVal)]])"

text \<open>The rows after the editor in a cell reports a new value. Only a \<open>FieldInput\<close> has
  an \<open>onChange\<close> handler.\<close>

fun cellChange :: "cell \<Rightarrow> jsval \<Rightarrow> jsval list \<Rightarrow> jsval list" where
  "cellChange (InputCell def val rowIndex key d) nextVal rows = setRow rowIndex key nextVal rows"
| "cellChange c nextVal rows = rows"

text \<open>The head of \<open>FieldInput\<close>: which editor a field gets. A repeater takes its depth from
  \<open>_repeaterDepth\<close> when that is a number, and is at depth 1 otherwise.\<close>

datatype editor = UserRelationEditor | RepeaterEditor nat | OtherEditor

definition fieldInput :: "jsval \<Rightarrow> nat option \<Rightarrow> editor" where
  "fieldInput field repeaterDepth =
     (let fieldType = toLowerCase (trim (toString (js_or (optMember field ''type'') (JStr ''text''))))
      in if fieldType = ''relation_user'' then UserRelationEditor
         else if fieldType = ''repeater''
              then RepeaterEditor (case repeaterDepth of Some d \<Rightarrow> d | None \<Rightarrow> 1)
         else OtherEditor)"

text \<open>The editor behind a cell, if it has one.\<close>

fun cellEditor :: "cell \<Rightarrow> editor option" where
  "cellEditor (InputCell def val rowIndex key d) = Some (fieldInput def (Some d))"
| "cellEditor c = None"

section \<open>Title templates\<close>

text \<open>What can be thrown in the code modelled below.\<close>

datatype error = TypeError | StoreError | CanonicalizerError


text \<open>\<open>s.split(d)\<close> for a one-character separator.\<close>

fun splitOn :: "char \<Rightarrow> string \<Rightarrow> string list" where
  "splitOn d [] = [Nil]"
| "splitOn d (c # cs) =
     (if c = d then [] # splitOn d cs
      else case splitOn d cs of
             h # t \<Rightarrow> (c # h) # t
           | [] \<Rightarrow> [c] # [])"




subsection \<open>\<open>JSON.stringify\<close>\<close>





subsection \<open>\<open>asPrettyInline\<close>\<close>





subsection \<open>\<open>deriveTitleFromTemplate\<close>\<close>







section \<open>The editor view layout\<close>

text \<open>A compiled section and its rows, as \<open>buildLayoutFromView\<close> builds them.\<close>

record layoutRow =
  row_def :: jsval
  row_width :: jsval

record layoutSection =
  sec_id :: jsval
  sec_title :: jsval
  sec_columns :: int
  sec_rows :: "layoutRow list"

text \<open>The callback that gives each field its key, \<open>f.field_key || f.key\<close>; \<open>None\<close> is the
  \<open>null\<close> that \<open>filter(Boolean)\<close> then drops.\<close>

definition keyedField :: "jsval \<Rightarrow> jsval option" where
  "keyedField f =
     (if \<not> truthy f then None
      else let key = js_or (member f ''field_key'') (member f ''key'')
           in if truthy key then Some (JObj (setProp (spread f) ''key'' key)) else None)"

definition contentFields :: "jsval \<Rightarrow> jsval list" where
  "contentFields contentType =
     List.map_filter keyedField (coerceArray (member contentType ''fields''))"

text \<open>The lookup \<open>fieldsByKey\<close>: of two fields with one key the later one is kept.\<close>

definition fieldsByKey :: "jsval list \<Rightarrow> (string \<rightharpoonup> jsval)" where
  "fieldsByKey flds = map_of (rev (map (\<lambda>f. (toString (member f ''key''), f)) flds))"

definition sectionColumns :: "jsval \<Rightarrow> int" where
  "sectionColumns sec =
     (let c0 = 1;
          c1 = (case member sec ''layout'' of
                  JStr l \<Rightarrow> (if strIncludes l ''two'' then 2 else c0)
                | _ \<Rightarrow> c0);
          c2 = (case member sec ''layout'' of
                  JStr l \<Rightarrow> (if strIncludes l ''three'' then 3 else c1)
                | _ \<Rightarrow> c1)
      in case member sec ''columns'' of
           JNum n \<Rightarrow> (if n \<noteq> 0 then n else c2)
         | _ \<Rightarrow> c2)"

text \<open>What \<open>for (const fCfgRaw of sec.fields || [])\<close> iterates: the elements of an array,
  the characters of a string; any other truthy value is not iterable.\<close>

definition fieldRefs :: "jsval \<Rightarrow> error + jsval list" where
  "fieldRefs sec =
     (case js_or (member sec ''fields'') (JArr []) of
        JArr xs \<Rightarrow> Inr xs
      | JStr s \<Rightarrow> Inr (map (\<lambda>c. JStr [c]) s)
      | _ \<Rightarrow> Inl TypeError)"

definition refKey :: "jsval \<Rightarrow> jsval" where
  "refKey r =
     (case r of
        JStr s \<Rightarrow> JStr s
      | JObj kvs \<Rightarrow> js_or (js_or (js_or (member r ''key'') (member r ''field_key''))
                                 (member r ''field'')) (member r ''id'')
      | JArr xs \<Rightarrow> js_or (js_or (js_or (member r ''key'') (member r ''field_key''))
                                 (member r ''field'')) (member r ''id'')
      | _ \<Rightarrow> JUndefined)"

definition refWidth :: "jsval \<Rightarrow> jsval" where
  "refWidth r =
     (case r of
        JObj kvs \<Rightarrow> js_or (js_or (member r ''width'') (member r ''colSpan'')) (JNum 1)
      | JArr xs \<Rightarrow> js_or (js_or (member r ''width'') (member r ''colSpan'')) (JNum 1)
      | _ \<Rightarrow> JNum 1)"

definition refVisible :: "jsval \<Rightarrow> bool" where
  "refVisible r =
     (case r of
        JObj kvs \<Rightarrow> (case member r ''visible'' of JBool b \<Rightarrow> b | _ \<Rightarrow> True)
      | JArr xs \<Rightarrow> (case member r ''visible'' of JBool b \<Rightarrow> b | _ \<Rightarrow> True)
      | _ \<Rightarrow> True)"

text \<open>One field reference of a section: skipped without a key or when not visible;
  a key that is no field of the content type gets the built-in placeholder.\<close>

definition rowOfRef :: "(string \<rightharpoonup> jsval) \<Rightarrow> jsval \<Rightarrow> layoutRow option" where
  "rowOfRef byKey r =
     (let key = refKey r
      in if \<not> truthy key \<or> \<not> refVisible r then None
         else Some \<lparr>row_def = (case byKey (toString key) of
                                  Some d \<Rightarrow> d
                                | None \<Rightarrow> JObj [(''key'', key), (''type'', JStr ''builtin'')]),
                     row_width = refWidth r\<rparr>)"

text \<open>One configured section: \<open>None\<close> when it has no usable row. Reading a property of a
  \<open>null\<close> or \<open>undefined\<close> section throws.\<close>

definition compileSection :: "(string \<rightharpoonup> jsval) \<Rightarrow> jsval \<Rightarrow> error + layoutSection option" where
  "compileSection byKey sec =
     (if isNullish sec then Inl TypeError
      else case fieldRefs sec of
             Inl e \<Rightarrow> Inl e
           | Inr refs \<Rightarrow>
               let rws = List.map_filter (rowOfRef byKey) refs
               in if rws = [] then Inr None
                  else Inr (Some \<lparr>sec_id = js_or (member sec ''id'') (JStr ''section''),
                                   sec_title = js_or (member sec ''title'') (JStr ''Section''),
                                   sec_columns = sectionColumns sec,
                                   sec_rows = rws\<rparr>))"

fun compileSections :: "(string \<rightharpoonup> jsval) \<Rightarrow> jsval list \<Rightarrow> error + layoutSection list" where
  "compileSections byKey [] = Inr []"
| "compileSections byKey (sec # secs) =
     (case compileSection byKey sec of
        Inl e \<Rightarrow> Inl e
      | Inr r \<Rightarrow>
          (case compileSections byKey secs of
             Inl e \<Rightarrow> Inl e
           | Inr rest \<Rightarrow> Inr (case r of Some s \<Rightarrow> s # rest | None \<Rightarrow> rest)))"

text \<open>\<open>cfgSections\<close>: the sections collection of the view configuration, \<open>None\<close> (the
  source's \<open>null\<close>) when there is no configuration or its \<open>sections\<close> is not an array.\<close>

definition viewSections :: "jsval \<Rightarrow> jsval list option" where
  "viewSections viewConfig =
     (if truthy viewConfig
      then (case member viewConfig ''sections'' of JArr xs \<Rightarrow> Some xs | _ \<Rightarrow> None)
      else None)"

text \<open>The section synthesized when there is no view configuration.\<close>

definition fallbackSection :: "jsval list \<Rightarrow> layoutSection" where
  "fallbackSection flds =
     \<lparr>sec_id = JStr ''main'', sec_title = JStr ''Fields'', sec_columns = 1,
      sec_rows = map (\<lambda>d. \<lparr>row_def = d, row_width = JNum 1\<rparr>) flds\<rparr>"

definition buildLayoutFromView :: "jsval \<Rightarrow> jsval \<Rightarrow> error + layoutSection list" where
  "buildLayoutFromView contentType viewConfig =
     (if \<not> truthy contentType then Inr []
      else
        let flds = contentFields contentType;
            byKey = fieldsByKey flds;
            cfgSections = viewSections viewConfig;
            hasAnyViewSectionsConfig = (cfgSections \<noteq> None)
        in case (case cfgSections of
                   Some secs \<Rightarrow> compileSections byKey secs
                 | None \<Rightarrow> Inr []) of
             Inl e \<Rightarrow> Inl e
           | Inr sections \<Rightarrow>
               if sections = [] \<and> flds \<noteq> [] \<and> \<not> hasAnyViewSectionsConfig
               then Inr [fallbackSection flds]
               else Inr sections)"

text \<open>The key each declared field is given, in declared order; fields without one are
  left out.\<close>

definition declaredFieldKeys :: "jsval \<Rightarrow> jsval list" where
  "declaredFieldKeys contentType =
     filter truthy
       (map (\<lambda>f. js_or (member f ''field_key'') (member f ''key''))
            (filter truthy (coerceArray (member contentType ''fields''))))"

section \<open>Relation resolution on the read path\<close>

text \<open>\<open>isUuid\<close>: the trimmed string form of the value (of \<open>""\<close> when it is falsy) is five
  dash-separated groups of 8, 4, 4, 4 and 12 hexadecimal digits.\<close>

definition isHex :: "char \<Rightarrow> bool" where
  "isHex c = (c \<in> set ''0123456789abcdefABCDEF'')"

definition isUuid :: "jsval \<Rightarrow> bool" where
  "isUuid v =
     (case splitOn CHR ''-'' (trim (toString (js_or v (JStr [])))) of
        [a, b, c, d, e] \<Rightarrow>
          length a = 8 \<and> length b = 4 \<and> length c = 4 \<and> length d = 4 \<and> length e = 12 \<and>
          list_all isHex (a @ b @ c @ d @ e)
      | _ \<Rightarrow> False)"

text \<open>A \<open>relation_user\<close> row of \<open>content_fields\<close>, and the per-field configuration
  \<open>{multiple, display, roleFilter, onlyActive}\<close> built from it.\<close>

record fieldRow =
  fr_key :: string
  fr_config :: jsval

record userFieldCfg =
  uf_multiple :: bool
  uf_display :: jsval
  uf_roleFilter :: jsval
  uf_onlyActive :: bool

text \<open>The \<open>_resolved\<close> object of an entry; a property that is not there is \<open>None\<close>.\<close>

record resolution =
  res_userFields :: "(string \<times> userFieldCfg) list option"
  res_usersById :: "(string \<times> jsval) list option"

text \<open>An entry row: its \<open>data\<close> column, its other columns, and \<open>_resolved\<close> when attached.\<close>

record entry =
  entry_data :: jsval
  entry_columns :: "(string \<times> jsval) list"
  entry_resolved :: "resolution option"

text \<open>The queries the read path sends to the store; each may fail.\<close>

record store =
  q_typeBySlug :: "string \<Rightarrow> error + jsval list"
  q_entries :: "jsval \<Rightarrow> error + entry list"
  q_entry :: "string \<Rightarrow> jsval \<Rightarrow> error + entry list"
  q_userFields :: "jsval \<Rightarrow> error + fieldRow list"
  q_users :: "string list \<Rightarrow> error + jsval list"

text \<open>\<open>v && typeof v === "object" ? v : {}\<close>.\<close>

fun objectOrEmpty :: "jsval \<Rightarrow> jsval" where
  "objectOrEmpty (JObj kvs) = JObj kvs"
| "objectOrEmpty (JArr xs) = JArr xs"
| "objectOrEmpty v = JObj []"

definition userFieldOf :: "jsval \<Rightarrow> userFieldCfg" where
  "userFieldOf config =
     (let cfg = objectOrEmpty config
      in \<lparr>uf_multiple = truthy (member cfg ''multiple''),
          uf_display = js_or (member cfg ''display'') (JStr ''name_email''),
          uf_roleFilter = js_or (member cfg ''roleFilter'') (JStr []),
          uf_onlyActive = (if member cfg ''onlyActive'' = JUndefined then True
                           else truthy (member cfg ''onlyActive''))\<rparr>)"

definition buildUserFields :: "fieldRow list \<Rightarrow> (string \<times> userFieldCfg) list" where
  "buildUserFields fieldRows =
     foldl (\<lambda>acc f. setProp acc (fr_key f) (userFieldOf (fr_config f))) [] fieldRows"

text \<open>The identifiers one value refers to: the valid ones among the elements of an array,
  or the value itself when valid.\<close>

definition idsOfValue :: "jsval \<Rightarrow> string list" where
  "idsOfValue v =
     (case v of
        JArr xs \<Rightarrow> map toString (filter isUuid xs)
      | _ \<Rightarrow> if isUuid v then [toString v] else [])"

definition addToSet :: "string list \<Rightarrow> string \<Rightarrow> string list" where
  "addToSet acc x = (if x \<in> set acc then acc else acc @ [x])"

definition collectIds :: "(string \<times> userFieldCfg) list \<Rightarrow> entry list \<Rightarrow> string list" where
  "collectIds userFields entries =
     foldl addToSet []
       (concat (map (\<lambda>e. concat (map (\<lambda>fieldKey. idsOfValue (member (objectOrEmpty (entry_data e)) fieldKey))
                                      (map fst userFields)))
                    entries))"

definition emptyResolution :: resolution where
  "emptyResolution = \<lparr>res_userFields = None, res_usersById = None\<rparr>"

text \<open>Attaching the context to one entry: without and with a user lookup.\<close>

definition attachNoUsers :: "(string \<times> userFieldCfg) list \<Rightarrow> entry \<Rightarrow> entry" where
  "attachNoUsers userFields e =
     (let r = (case entry_resolved e of Some r \<Rightarrow> r | None \<Rightarrow> emptyResolution)
      in e\<lparr>entry_resolved :=
             Some (r\<lparr>res_userFields := Some userFields,
                     res_usersById := Some (case res_usersById r of Some m \<Rightarrow> m | None \<Rightarrow> [])\<rparr>)\<rparr>)"

definition attachUsers ::
    "(string \<times> userFieldCfg) list \<Rightarrow> (string \<times> jsval) list \<Rightarrow> entry \<Rightarrow> entry" where
  "attachUsers userFields usersById e =
     (let r = (case entry_resolved e of Some r \<Rightarrow> r | None \<Rightarrow> emptyResolution)
      in e\<lparr>entry_resolved :=
             Some (r\<lparr>res_userFields := Some userFields, res_usersById := Some usersById\<rparr>)\<rparr>)"

definition indexUsers :: "jsval list \<Rightarrow> (string \<times> jsval) list" where
  "indexUsers users = foldl (\<lambda>acc u. setProp acc (toString (member u ''id'')) u) [] users"

text \<open>\<open>attachResolvedUsersToEntries\<close> on the list of entries (a single entry is passed as
  the one-element list). The two awaited queries are not guarded: a failure leaves the
  function as an exception.\<close>

definition attachResolvedUsersToEntries :: "store \<Rightarrow> jsval \<Rightarrow> entry list \<Rightarrow> error + entry list" where
  "attachResolvedUsersToEntries st typeId entries =
     (if \<not> truthy typeId \<or> entries = [] then Inr entries
      else case q_userFields st typeId of
             Inl err \<Rightarrow> Inl err
           | Inr userFieldRows \<Rightarrow>
               if userFieldRows = [] then Inr entries
               else
                 let userFields = buildUserFields userFieldRows;
                     ids = collectIds userFields entries
                 in if ids = [] then Inr (map (attachNoUsers userFields) entries)
                    else case q_users st ids of
                           Inl err \<Rightarrow> Inl err
                         | Inr users \<Rightarrow>
                             Inr (map (attachUsers userFields (indexUsers users)) entries))"

datatype 'a response = Ok200 'a | NotFound404 | ServerError500

text \<open>\<open>GET /api/content/:slug\<close>: any exception inside the handler is answered with 500.\<close>

definition listEntries :: "store \<Rightarrow> string \<Rightarrow> entry list response" where
  "listEntries st slug =
     (case q_typeBySlug st slug of
        Inl err \<Rightarrow> ServerError500
      | Inr [] \<Rightarrow> NotFound404
      | Inr (t # ts) \<Rightarrow>
          (case q_entries st (member t ''id'') of
             Inl err \<Rightarrow> ServerError500
           | Inr entries \<Rightarrow>
               (case attachResolvedUsersToEntries st (member t ''id'') entries of
                  Inl err \<Rightarrow> ServerError500
                | Inr es \<Rightarrow> Ok200 es)))"

text \<open>\<open>GET /api/content/:slug/:id\<close>, after authentication.\<close>

definition getEntry :: "store \<Rightarrow> string \<Rightarrow> string \<Rightarrow> entry response" where
  "getEntry st slug ident =
     (case q_typeBySlug st slug of
        Inl err \<Rightarrow> ServerError500
      | Inr [] \<Rightarrow> NotFound404
      | Inr (t # ts) \<Rightarrow>
          (case q_entry st ident (member t ''id'') of
             Inl err \<Rightarrow> ServerError500
           | Inr [] \<Rightarrow> NotFound404
           | Inr (e # es) \<Rightarrow>
               (case attachResolvedUsersToEntries st (member t ''id'') [e] of
                  Inl err \<Rightarrow> ServerError500
                | Inr [] \<Rightarrow> Ok200 e
                | Inr (e' # es') \<Rightarrow> Ok200 e')))"

text \<open>An entry carries a resolution context: \<open>_resolved\<close> is there, its \<open>userFields\<close> is
  the given configuration and its \<open>usersById\<close> is a map (possibly empty).\<close>

definition carriesContext :: "(string \<times> userFieldCfg) list \<Rightarrow> entry \<Rightarrow> bool" where
  "carriesContext userFields e =
     (case entry_resolved e of
        Some r \<Rightarrow> res_userFields r = Some userFields \<and> res_usersById r \<noteq> None
      | None \<Rightarrow> False)"

section \<open>Entry normalization\<close>




















section \<open>Properties of the visibility engine\<close>














section \<open>Properties of the repeater field\<close>

lemma length_filter_enumerate:
  "length (filter (\<lambda>p. fst p \<noteq> i) (enumerate n xs)) =
     (if n \<le> i \<and> i < n + length xs then length xs - 1 else length xs)"
proof (induction xs arbitrary: n)
  case Nil
  then show ?case by simp
next
  case (Cons x xs)
  show ?case using Cons.IH [of "Suc n"] by (cases xs) auto
qed

lemma nat_lt_int_bound:
  assumes "q \<in> \<int>" "\<not> (of_nat n \<ge> (q::rat))"
  shows "of_nat (Suc n) \<le> q"
proof -
  from assms(1) obtain z :: int where q: "q = of_int z" by (auto elim: Ints_cases)
  from assms(2) have "(of_nat n :: rat) < of_int z" by (simp add: q)
  then have "(of_int (int n) :: rat) < of_int z" by simp
  then have "int n < z" by (simp only: of_int_less_iff)
  then have "int (Suc n) \<le> z" by simp
  then have "(of_int (int (Suc n)) :: rat) \<le> of_int z" by (simp only: of_int_le_iff)
  then show ?thesis by (simp add: q)
qed

lemma nat_gt_int_bound:
  assumes "q \<in> \<int>" "\<not> (of_nat n \<le> (q::rat))"
  shows "q \<le> of_nat (n - 1)"
proof -
  from assms(1) obtain z :: int where q: "q = of_int z" by (auto elim: Ints_cases)
  from assms(2) have "(of_int z :: rat) < of_int (int n)" by (simp add: q)
  then have "z < int n" by (simp only: of_int_less_iff)
  then have "z \<le> int (n - 1)" by simp
  then have "(of_int z :: rat) \<le> of_int (int (n - 1))" by (simp only: of_int_le_iff)
  then show ?thesis by (simp add: q)
qed

lemma withinBounds_addRow:
  assumes "integerBound (maxRows rp)" "withinBounds rp (length rows)"
  shows "withinBounds rp (length (addRow rp rows))"
proof (cases "maxRows rp")
  case None
  with assms(2) show ?thesis
    by (auto simp: withinBounds_def addRow_def split: option.splits)
next
  case (Some mx)
  with assms(1) have i: "mx \<in> \<int>" by (simp add: integerBound_def)
  show ?thesis
  proof (cases "of_nat (length rows) \<ge> mx")
    case True
    with Some assms(2) show ?thesis by (simp add: addRow_def)
  next
    case False
    from nat_lt_int_bound [OF i False] have "of_nat (Suc (length rows)) \<le> mx" .
    with Some False assms(2) show ?thesis
      by (auto simp: withinBounds_def addRow_def split: option.splits)
  qed
qed

lemma withinBounds_removeRow:
  assumes "integerBound (minRows rp)" "withinBounds rp (length rows)"
  shows "withinBounds rp (length (removeRow rp i rows))"
proof (cases "minRows rp")
  case None
  with assms(2) show ?thesis
    by (auto simp: withinBounds_def removeRow_def Let_def length_filter_enumerate split: option.splits)
next
  case (Some mn)
  with assms(1) have z: "mn \<in> \<int>" by (simp add: integerBound_def)
  show ?thesis
  proof (cases "of_nat (length rows) \<le> mn")
    case True
    with Some assms(2) show ?thesis by (simp add: removeRow_def)
  next
    case False
    from nat_gt_int_bound [OF z False] have "mn \<le> of_nat (length rows - 1)" .
    with Some False assms(2) show ?thesis
      by (auto simp: withinBounds_def removeRow_def Let_def length_filter_enumerate split: option.splits)
  qed
qed

lemma withinBounds_applyOps:
  assumes "integerBound (minRows rp)" "integerBound (maxRows rp)"
  shows "withinBounds rp (length rows) \<Longrightarrow> withinBounds rp (length (applyOps rp rows ops))"
proof (induction ops arbitrary: rows)
  case Nil
  then show ?case by simp
next
  case (Cons x xs)
  have "withinBounds rp (length (applyOp rp rows x))"
    using Cons.prems assms by (cases x) (simp_all add: withinBounds_addRow withinBounds_removeRow)
  then show ?case using Cons.IH by simp
qed

text \<open>
  Claim C5, as stated, at a bound that is not an integer: with \<open>maxRows = 2.5\<close> and two
  rows the count is within the bounds, \<open>addRow\<close> finds \<open>2 >= 2.5\<close> false and appends, and the
  count 3 is above \<open>maxRows\<close>.
\<close>

theorem repeater_bounds_counterexample:
  "withinBounds \<lparr>subfields = [], rules = JArr [], minRows = Some 0, maxRows = Some (5 / 2),
                  maxDepth = 2, depth = 1\<rparr> (length [JObj [], JObj []])
   \<and> \<not> withinBounds \<lparr>subfields = [], rules = JArr [], minRows = Some 0, maxRows = Some (5 / 2),
                  maxDepth = 2, depth = 1\<rparr>
        (length (applyOps \<lparr>subfields = [], rules = JArr [], minRows = Some 0,
                           maxRows = Some (5 / 2), maxDepth = 2, depth = 1\<rparr>
                   [JObj [], JObj []] [Append]))"
  by (simp add: withinBounds_def addRow_def)

text \<open>
  Claim C5, amended. Appending is a no-op when the row count has reached \<open>maxRows\<close> and
  removing is a no-op when the row count is at or below \<open>minRows\<close>. When the configured
  bounds are integers (or absent), a row count within the bounds stays within them under
  every sequence of append and remove operations.
\<close>

theorem repeater_bounds_invariant:
  "(maxRows rp = Some mx \<and> of_nat (length rows) \<ge> mx \<longrightarrow> addRow rp rows = rows)
   \<and> (minRows rp = Some mn \<and> of_nat (length rows) \<le> mn \<longrightarrow> removeRow rp i rows = rows)
   \<and> (integerBound (minRows rp) \<and> integerBound (maxRows rp) \<and> withinBounds rp (length rows)
        \<longrightarrow> withinBounds rp (length (applyOps rp rows ops)))"
  by (simp add: addRow_def removeRow_def withinBounds_applyOps)

theorem repeater_bounds_invariant_witness:
  "addRow \<lparr>subfields = [], rules = JArr [], minRows = Some 1, maxRows = Some 2,
           maxDepth = 2, depth = 1\<rparr> [JObj [], JObj []] = [JObj [], JObj []]
   \<and> removeRow \<lparr>subfields = [], rules = JArr [], minRows = Some 1, maxRows = Some 2,
           maxDepth = 2, depth = 1\<rparr> 0 [JObj []] = [JObj []]
   \<and> withinBounds \<lparr>subfields = [], rules = JArr [], minRows = Some 1, maxRows = Some 2,
           maxDepth = 2, depth = 1\<rparr>
        (length (applyOps \<lparr>subfields = [], rules = JArr [], minRows = Some 1, maxRows = Some 2,
                           maxDepth = 2, depth = 1\<rparr>
                   [JObj []] [Append, Append, Remove 0, Remove 0, Remove 7, Append]))"
  using repeater_bounds_invariant
    [of "\<lparr>subfields = [], rules = JArr [], minRows = Some 1, maxRows = Some 2,
           maxDepth = 2, depth = 1\<rparr>" 2 "[JObj [], JObj []]" 1 0
        "[Append, Append, Remove 0, Remove 0, Remove 7, Append]"]
    repeater_bounds_invariant
    [of "\<lparr>subfields = [], rules = JArr [], minRows = Some 1, maxRows = Some 2,
           maxDepth = 2, depth = 1\<rparr>" 2 "[JObj []]" 1 0
        "[Append, Append, Remove 0, Remove 0, Remove 7, Append]"]
  by (simp add: integerBound_def withinBounds_def)

lemma map_of_setProp:
  "map_of (setProp kvs k v) k' = (if k' = k then Some v else map_of kvs k')"
  by (induction kvs) auto

lemma subfieldKey_object:
  "subfieldKey sf \<noteq> [] \<Longrightarrow> \<exists>kvs. sf = JObj kvs"
  by (cases sf)
     (simp_all add: subfieldKey_def optMember_def js_or_def trim_def parseIndex_def
        allDigits_def isDigit_def)

lemma trim_id:
  "s \<noteq> [] \<Longrightarrow> \<not> isWs (hd s) \<Longrightarrow> \<not> isWs (last s) \<Longrightarrow> trim s = s"
proof -
  assume a: "s \<noteq> []" "\<not> isWs (hd s)" "\<not> isWs (last s)"
  then have 1: "dropWhile isWs s = s" by (cases s) simp_all
  from a have "rev s \<noteq> []" "\<not> isWs (hd (rev s))" by (simp_all add: hd_rev)
  then have "dropWhile isWs (rev s) = rev s" by (cases "rev s") simp_all
  with 1 show ?thesis by (simp add: trim_def)
qed

lemma isWs_cases:
  "isWs c \<Longrightarrow> c = CHR 0x09 \<or> c = CHR 0x0A \<or> c = CHR 0x0B \<or> c = CHR 0x0C \<or> c = CHR 0x0D \<or> c = CHR 0x20"
  by (simp add: isWs_def)

lemma isWs_toLowerChar: "isWs c \<Longrightarrow> toLowerChar c = c"
  by (drule isWs_cases) (elim disjE; simp add: toLowerChar_def isUpperAZ_def)

lemma notWs_r: "toLowerChar c = CHR ''r'' \<Longrightarrow> \<not> isWs c"
proof
  assume a: "toLowerChar c = CHR ''r''" and w: "isWs c"
  from w have "toLowerChar c = c" by (rule isWs_toLowerChar)
  with a have "c = CHR ''r''" by simp
  with w show False by (simp add: isWs_def)
qed

lemma lower_repeater_trim:
  assumes "toLowerCase s = ''repeater''"
  shows "trim s = s"
proof -
  from assms have ne: "s \<noteq> []" by (auto simp: toLowerCase_def)
  have h: "toLowerChar (hd s) = CHR ''r''"
    using assms ne by (cases s) (simp_all add: toLowerCase_def)
  have "last (toLowerCase s) = toLowerChar (last s)"
    using ne by (simp add: toLowerCase_def last_map)
  with assms have l: "toLowerChar (last s) = CHR ''r''" by simp
  have "\<not> isWs (hd s)" using h by (rule notWs_r)
  moreover have "\<not> isWs (last s)" using l by (rule notWs_r)
  ultimately show ?thesis using ne by (simp add: trim_id)
qed

text \<open>
  Claim C6, as stated, at the outermost repeater (depth 1) with the default
  \<open>maxDepth = 2\<close>: the would-be depth of a repeater subfield is 2, which is \<open>\<ge> maxDepth\<close>,
  yet the subfield is not inert: it gets a \<open>FieldInput\<close> that renders a nested repeater at
  depth 2, whose \<open>onChange\<close> writes the subfield's key into the row.
\<close>

theorem nested_repeater_depth_counterexample:
  "of_nat (depth \<lparr>subfields = [JObj [(''key'', JStr ''items''), (''type'', JStr ''repeater'')]],
                  rules = JArr [], minRows = None, maxRows = None, maxDepth = maxDepthOf None, depth = 1\<rparr> + 1)
     \<ge> maxDepth \<lparr>subfields = [JObj [(''key'', JStr ''items''), (''type'', JStr ''repeater'')]],
                  rules = JArr [], minRows = None, maxRows = None, maxDepth = maxDepthOf None, depth = 1\<rparr>
   \<and> renderSubfieldCell
        \<lparr>subfields = [JObj [(''key'', JStr ''items''), (''type'', JStr ''repeater'')]],
         rules = JArr [], minRows = None, maxRows = None, maxDepth = maxDepthOf None, depth = 1\<rparr>
        (JObj [(''key'', JStr ''items''), (''type'', JStr ''repeater'')]) 0 (JObj [])
      = InputCell (JObj [(''key'', JStr ''items''), (''type'', JStr ''repeater'')])
          JUndefined 0 ''items'' 2
   \<and> cellEditor (InputCell (JObj [(''key'', JStr ''items''), (''type'', JStr ''repeater'')])
          JUndefined 0 ''items'' 2) = Some (RepeaterEditor 2)
   \<and> cellChange (InputCell (JObj [(''key'', JStr ''items''), (''type'', JStr ''repeater'')])
          JUndefined 0 ''items'' 2) (JArr [JObj []]) [JObj []]
      = [JObj [(''items'', JArr [JObj []])]]"
  by (simp add: renderSubfieldCell_def subfieldKey_def optMember_def js_or_def trim_def isWs_def
      computeSubfieldVisibility_def canNestMore_def maxDepthOf_def toLowerCase_def toLowerChar_def isUpperAZ_def char_of_def bit_Suc_0_iff
      fieldInput_def setRow_def Let_def)

text \<open>
  Claim C6, amended. Take a subfield with a key whose type is \<open>repeater\<close> (in any letter
  case) and which the parent's visibility rules do not hide in the row. When the parent's
  own depth is \<open>\<ge>\<close> its \<open>maxDepth\<close> (that is, the would-be depth of the subfield exceeds
  \<open>maxDepth\<close>), the subfield is rendered as the inert notice: no editor is created for it,
  so no nested rows or rules are evaluated, and nothing it does changes the rows. When the
  parent's depth is below \<open>maxDepth\<close>, it gets a nested repeater one level deeper. In
  particular, at \<open>maxDepth = 1\<close> every such subfield of a repeater at depth \<open>\<ge> 1\<close> is inert.
\<close>

theorem nested_repeater_inert:
  assumes "subfieldKey sf \<noteq> []"
      and "computeSubfieldVisibility (subfields rp) (rules rp) row (subfieldKey sf) \<noteq> Some False"
      and "toLowerCase (toString (js_or (optMember sf ''type'') (JStr ''text''))) = ''repeater''"
  shows "(of_nat (depth rp) \<ge> maxDepth rp \<longrightarrow>
            renderSubfieldCell rp sf i row = InertNotice (depth rp)
            \<and> cellEditor (renderSubfieldCell rp sf i row) = None
            \<and> (\<forall>v rows. cellChange (renderSubfieldCell rp sf i row) v rows = rows))
       \<and> (of_nat (depth rp) < maxDepth rp \<longrightarrow>
            cellEditor (renderSubfieldCell rp sf i row) = Some (RepeaterEditor (depth rp + 1)))
       \<and> (maxDepth rp = 1 \<and> depth rp \<ge> 1 \<longrightarrow>
            renderSubfieldCell rp sf i row = InertNotice (depth rp))"
proof -
  from assms(1) obtain kvs where sf: "sf = JObj kvs" using subfieldKey_object by blast
  let ?def = "JObj (setProp (spread sf) ''key'' (JStr (subfieldKey sf)))"
  have ty: "member ?def ''type'' = optMember sf ''type''"
    by (simp add: sf optMember_def map_of_setProp)
  have oty: "optMember ?def ''type'' = optMember sf ''type''"
    by (simp add: sf optMember_def map_of_setProp)
  have inert: "renderSubfieldCell rp sf i row = InertNotice (depth rp)"
    if "of_nat (depth rp) \<ge> maxDepth rp"
    using assms that unfolding renderSubfieldCell_def Let_def ty canNestMore_def by simp
  have active: "renderSubfieldCell rp sf i row
                  = InputCell ?def (optMember row (subfieldKey sf)) i (subfieldKey sf) (depth rp + 1)"
    if "of_nat (depth rp) < maxDepth rp"
    using assms that unfolding renderSubfieldCell_def Let_def ty canNestMore_def by simp
  have ed: "fieldInput ?def (Some (depth rp + 1)) = RepeaterEditor (depth rp + 1)"
    using assms(3) lower_repeater_trim [OF assms(3)]
    unfolding fieldInput_def Let_def oty by simp
  have one: "of_nat (depth rp) \<ge> maxDepth rp" if "maxDepth rp = 1 \<and> depth rp \<ge> 1"
    using that by simp
  show ?thesis using inert active ed one by simp
qed

theorem nested_repeater_inert_witness:
  "renderSubfieldCell
      \<lparr>subfields = [JObj [(''field_key'', JStr ''items''), (''type'', JStr ''Repeater'')]],
       rules = JArr [], minRows = None, maxRows = None, maxDepth = 1, depth = 1\<rparr>
      (JObj [(''field_key'', JStr ''items''), (''type'', JStr ''Repeater'')]) 0
      (JObj [(''items'', JArr [JObj []])]) = InertNotice 1
   \<and> cellEditor (renderSubfieldCell
      \<lparr>subfields = [JObj [(''field_key'', JStr ''items''), (''type'', JStr ''Repeater'')]],
       rules = JArr [], minRows = None, maxRows = None, maxDepth = 3, depth = 2\<rparr>
      (JObj [(''field_key'', JStr ''items''), (''type'', JStr ''Repeater'')]) 0
      (JObj [(''items'', JArr [JObj []])])) = Some (RepeaterEditor 3)"
  using nested_repeater_inert
    [of "JObj [(''field_key'', JStr ''items''), (''type'', JStr ''Repeater'')]"
        "\<lparr>subfields = [JObj [(''field_key'', JStr ''items''), (''type'', JStr ''Repeater'')]],
         rules = JArr [], minRows = None, maxRows = None, maxDepth = 1, depth = 1\<rparr>"
        "JObj [(''items'', JArr [JObj []])]" 0]
    nested_repeater_inert
    [of "JObj [(''field_key'', JStr ''items''), (''type'', JStr ''Repeater'')]"
        "\<lparr>subfields = [JObj [(''field_key'', JStr ''items''), (''type'', JStr ''Repeater'')]],
         rules = JArr [], minRows = None, maxRows = None, maxDepth = 3, depth = 2\<rparr>"
        "JObj [(''items'', JArr [JObj []])]" 0]
  by (simp add: subfieldKey_def optMember_def js_or_def trim_def isWs_def
      computeSubfieldVisibility_def toLowerCase_def toLowerChar_def isUpperAZ_def char_of_def bit_Suc_0_iff Let_def)

section \<open>Properties of title derivation\<close>
























section \<open>Properties of the layout compiler\<close>

lemma keyedField_key:
  "keyedField f = Some d \<Longrightarrow>
     member d ''key'' = js_or (member f ''field_key'') (member f ''key'') \<and> truthy (member d ''key'') \<and> truthy f"
  by (auto simp: keyedField_def Let_def map_of_setProp split: if_splits)

lemma keyedField_None:
  "keyedField f = None \<longleftrightarrow> \<not> (truthy f \<and> truthy (js_or (member f ''field_key'') (member f ''key'')))"
  by (auto simp: keyedField_def Let_def)

lemma map_filter_keys:
  "map (\<lambda>d. member d ''key'') (List.map_filter keyedField fs) =
     filter truthy (map (\<lambda>f. js_or (member f ''field_key'') (member f ''key'')) (filter truthy fs))"
proof (induction fs)
  case Nil
  then show ?case by simp
next
  case (Cons f fs)
  show ?case
  proof (cases "keyedField f")
    case None
    then show ?thesis using Cons.IH keyedField_None [of f]
      by auto
  next
    case (Some d)
    then show ?thesis using Cons.IH keyedField_key [OF Some]
      by auto
  qed
qed

lemma contentFields_keys:
  "map (\<lambda>d. member d ''key'') (contentFields ct) = declaredFieldKeys ct"
  by (simp add: contentFields_def declaredFieldKeys_def map_filter_keys)

lemma compileSections_empty:
  "\<forall>sec \<in> set secs. compileSection byKey sec = Inr None \<Longrightarrow> compileSections byKey secs = Inr []"
  by (induction secs) auto


text \<open>
  Claim C1, as stated, at a content type that declares no fields and no view
  configuration: there is no sections collection, yet no section is synthesized; the
  layout is empty.
\<close>

theorem layout_fallback_counterexample:
  "viewSections JUndefined = None
   \<and> buildLayoutFromView (JObj [(''slug'', JStr ''page''), (''fields'', JArr [])]) JUndefined
       \<noteq> Inr [fallbackSection (contentFields (JObj [(''slug'', JStr ''page''), (''fields'', JArr [])]))]
   \<and> buildLayoutFromView (JObj [(''slug'', JStr ''page''), (''fields'', JArr [])]) JUndefined = Inr []"
  by (simp add: viewSections_def buildLayoutFromView_def contentFields_def
      Let_def)

text \<open>
  Claim C1, amended. Without a content type the layout is empty. For a content type (a
  truthy value): when the view configuration has
  no sections collection, the layout is the single section \<open>main\<close> / \<open>Fields\<close> with one
  column holding every keyed field in declared order at width 1, provided there is at
  least one keyed field, and the empty list otherwise. When a sections collection exists,
  the layout is what the configured sections compile to and nothing else; so when every
  configured section yields no usable row, and in particular for \<open>{sections: []}\<close>, the
  layout is the empty list, whatever fields the content type declares.
\<close>

theorem layout_fallback_policy:
  "(\<not> truthy ct \<longrightarrow> buildLayoutFromView ct vc = Inr [])
   \<and> (truthy ct \<longrightarrow>
     (viewSections vc = None \<and> contentFields ct \<noteq> [] \<longrightarrow>
        buildLayoutFromView ct vc = Inr [fallbackSection (contentFields ct)]
        \<and> map (\<lambda>r. member (row_def r) ''key'')
              (sec_rows (fallbackSection (contentFields ct))) = declaredFieldKeys ct
        \<and> list_all (\<lambda>r. row_width r = JNum 1) (sec_rows (fallbackSection (contentFields ct))))
     \<and> (viewSections vc = None \<and> contentFields ct = [] \<longrightarrow> buildLayoutFromView ct vc = Inr [])
     \<and> (viewSections vc = Some secs \<longrightarrow>
          buildLayoutFromView ct vc = compileSections (fieldsByKey (contentFields ct)) secs)
     \<and> (viewSections vc = Some secs \<and>
          (\<forall>sec \<in> set secs. compileSection (fieldsByKey (contentFields ct)) sec = Inr None) \<longrightarrow>
          buildLayoutFromView ct vc = Inr [])
     \<and> buildLayoutFromView ct (JObj [(''sections'', JArr [])]) = Inr [])"
proof -
  have n: "buildLayoutFromView ct vc = Inr []" if "\<not> truthy ct"
    using that by (simp add: buildLayoutFromView_def)
  have a: "buildLayoutFromView ct vc = Inr [fallbackSection (contentFields ct)]"
    if "truthy ct" "viewSections vc = None \<and> contentFields ct \<noteq> []"
    using that by (simp add: buildLayoutFromView_def Let_def)
  have k: "map (\<lambda>r. member (row_def r) ''key'')
              (sec_rows (fallbackSection (contentFields ct))) = declaredFieldKeys ct"
    using contentFields_keys [of ct] by (simp add: fallbackSection_def comp_def)
  have w: "list_all (\<lambda>r. row_width r = JNum 1) (sec_rows (fallbackSection (contentFields ct)))"
    by (simp add: fallbackSection_def list_all_iff)
  have b: "buildLayoutFromView ct vc = Inr []"
    if "truthy ct" "viewSections vc = None \<and> contentFields ct = []"
    using that by (simp add: buildLayoutFromView_def Let_def)
  have c: "buildLayoutFromView ct vc = compileSections (fieldsByKey (contentFields ct)) secs"
    if "truthy ct" "viewSections vc = Some secs"
    using that by (simp add: buildLayoutFromView_def Let_def split: sum.splits)
  have d: "buildLayoutFromView ct vc = Inr []"
    if "truthy ct" "viewSections vc = Some secs \<and>
          (\<forall>sec \<in> set secs. compileSection (fieldsByKey (contentFields ct)) sec = Inr None)"
    using that c compileSections_empty by simp
  have e: "buildLayoutFromView ct (JObj [(''sections'', JArr [])]) = Inr []" if "truthy ct"
    using that by (simp add: buildLayoutFromView_def viewSections_def Let_def)
  from n a k w b c d e show ?thesis by blast
qed

theorem layout_fallback_policy_witness:
  "buildLayoutFromView
      (JObj [(''fields'', JArr [JObj [(''field_key'', JStr ''first_name''), (''type'', JStr ''text'')],
                                JNull,
                                JObj [(''key'', JStr ''email''), (''type'', JStr ''email'')]])])
      JNull
    = Inr [\<lparr>sec_id = JStr ''main'', sec_title = JStr ''Fields'', sec_columns = 1,
            sec_rows = [\<lparr>row_def = JObj [(''field_key'', JStr ''first_name''),
                                           (''type'', JStr ''text''), (''key'', JStr ''first_name'')],
                         row_width = JNum 1\<rparr>,
                        \<lparr>row_def = JObj [(''key'', JStr ''email''), (''type'', JStr ''email'')],
                         row_width = JNum 1\<rparr>]\<rparr>]
   \<and> buildLayoutFromView
      (JObj [(''fields'', JArr [JObj [(''field_key'', JStr ''first_name''), (''type'', JStr ''text'')],
                                JNull,
                                JObj [(''key'', JStr ''email''), (''type'', JStr ''email'')]])])
      (JObj [(''sections'', JArr [JObj [(''title'', JStr ''Main''),
                                        (''fields'', JArr [JObj [(''key'', JStr ''email''),
                                                                 (''visible'', JBool False)]])],
                                  JObj [(''title'', JStr ''Empty'')]])])
    = Inr []"
  using layout_fallback_policy
    [of "JObj [(''fields'', JArr [JObj [(''field_key'', JStr ''first_name''), (''type'', JStr ''text'')],
                                JNull,
                                JObj [(''key'', JStr ''email''), (''type'', JStr ''email'')]])]"
        JNull "[]"]
    layout_fallback_policy
    [of "JObj [(''fields'', JArr [JObj [(''field_key'', JStr ''first_name''), (''type'', JStr ''text'')],
                                JNull,
                                JObj [(''key'', JStr ''email''), (''type'', JStr ''email'')]])]"
        "JObj [(''sections'', JArr [JObj [(''title'', JStr ''Main''),
                                        (''fields'', JArr [JObj [(''key'', JStr ''email''),
                                                                 (''visible'', JBool False)]])],
                                  JObj [(''title'', JStr ''Empty'')]])]"
        "[JObj [(''title'', JStr ''Main''),
                (''fields'', JArr [JObj [(''key'', JStr ''email''), (''visible'', JBool False)]])],
          JObj [(''title'', JStr ''Empty'')]]"]
  by (simp add: viewSections_def contentFields_def keyedField_def js_or_def fallbackSection_def
      compileSection_def fieldRefs_def rowOfRef_def refKey_def refVisible_def
      Let_def)

section \<open>Properties of relation resolution\<close>

lemma carriesContext_attachNoUsers: "carriesContext uf (attachNoUsers uf e)"
  by (simp add: carriesContext_def attachNoUsers_def Let_def)

lemma carriesContext_attachUsers: "carriesContext uf (attachUsers uf us e)"
  by (simp add: carriesContext_def attachUsers_def Let_def)

lemma attachNoUsers_fresh:
  "entry_resolved e = None \<Longrightarrow>
     entry_resolved (attachNoUsers uf e) = Some \<lparr>res_userFields = Some uf, res_usersById = Some []\<rparr>"
  by (simp add: attachNoUsers_def emptyResolution_def Let_def)

lemma attach_context:
  assumes "truthy typeId" "entries \<noteq> []"
      and "q_userFields st typeId = Inr fieldRows" "fieldRows \<noteq> []"
      and "attachResolvedUsersToEntries st typeId entries = Inr es"
  shows "length es = length entries \<and> list_all (carriesContext (buildUserFields fieldRows)) es"
proof (cases "collectIds (buildUserFields fieldRows) entries = []")
  case True
  with assms have "es = map (attachNoUsers (buildUserFields fieldRows)) entries"
    by (simp add: attachResolvedUsersToEntries_def Let_def)
  then show ?thesis by (simp add: list_all_iff carriesContext_attachNoUsers)
next
  case False
  with assms obtain users
    where "q_users st (collectIds (buildUserFields fieldRows) entries) = Inr users"
      and "es = map (attachUsers (buildUserFields fieldRows) (indexUsers users)) entries"
    by (auto simp: attachResolvedUsersToEntries_def Let_def split: sum.splits)
  then show ?thesis by (simp add: list_all_iff carriesContext_attachUsers)
qed

lemma attach_no_ids:
  assumes "truthy typeId" "entries \<noteq> []"
      and "q_userFields st typeId = Inr fieldRows" "fieldRows \<noteq> []"
      and "collectIds (buildUserFields fieldRows) entries = []"
  shows "attachResolvedUsersToEntries st typeId entries =
           Inr (map (attachNoUsers (buildUserFields fieldRows)) entries)"
  using assms by (simp add: attachResolvedUsersToEntries_def Let_def)

lemma attach_no_fields:
  "q_userFields st typeId = Inr [] \<Longrightarrow> attachResolvedUsersToEntries st typeId entries = Inr entries"
  by (simp add: attachResolvedUsersToEntries_def)

lemma attach_lookup_fails:
  assumes "truthy typeId" "entries \<noteq> []"
      and "q_userFields st typeId = Inr fieldRows" "fieldRows \<noteq> []"
      and "collectIds (buildUserFields fieldRows) entries \<noteq> []"
      and "q_users st (collectIds (buildUserFields fieldRows) entries) = Inl err"
  shows "attachResolvedUsersToEntries st typeId entries = Inl err"
  using assms by (simp add: attachResolvedUsersToEntries_def Let_def)

text \<open>
  Claim C2, as stated, at two stores. In the first the content type has no \<open>relation_user\<close>
  field: the list fetch returns the entry as loaded, without a resolution context. In the
  second the entry refers to a user and the batched user lookup fails: the list fetch and
  the detail fetch answer with status 500 instead of returning the entry with an empty
  context.
\<close>

theorem relation_context_counterexample:
  "listEntries
      \<lparr>q_typeBySlug = (\<lambda>slug. Inr [JObj [(''id'', JNum 7)]]),
       q_entries = (\<lambda>typeId. Inr [\<lparr>entry_data = JObj [(''name'', JStr ''Ada'')],
                                    entry_columns = [(''id'', JNum 1)], entry_resolved = None\<rparr>]),
       q_entry = (\<lambda>ident typeId. Inr []),
       q_userFields = (\<lambda>typeId. Inr []),
       q_users = (\<lambda>ids. Inr [])\<rparr> ''people''
     = Ok200 [\<lparr>entry_data = JObj [(''name'', JStr ''Ada'')],
               entry_columns = [(''id'', JNum 1)], entry_resolved = None\<rparr>]
   \<and> listEntries
      \<lparr>q_typeBySlug = (\<lambda>slug. Inr [JObj [(''id'', JNum 7)]]),
       q_entries = (\<lambda>typeId. Inr [\<lparr>entry_data = JObj [(''owner'', JStr ''123e4567-e89b-12d3-a456-426614174000'')],
                                    entry_columns = [(''id'', JNum 1)], entry_resolved = None\<rparr>]),
       q_entry = (\<lambda>ident typeId. Inr [\<lparr>entry_data = JObj [(''owner'', JStr ''123e4567-e89b-12d3-a456-426614174000'')],
                                    entry_columns = [(''id'', JNum 1)], entry_resolved = None\<rparr>]),
       q_userFields = (\<lambda>typeId. Inr [\<lparr>fr_key = ''owner'', fr_config = JObj []\<rparr>]),
       q_users = (\<lambda>ids. Inl StoreError)\<rparr> ''people''
     = ServerError500
   \<and> getEntry
      \<lparr>q_typeBySlug = (\<lambda>slug. Inr [JObj [(''id'', JNum 7)]]),
       q_entries = (\<lambda>typeId. Inr [\<lparr>entry_data = JObj [(''owner'', JStr ''123e4567-e89b-12d3-a456-426614174000'')],
                                    entry_columns = [(''id'', JNum 1)], entry_resolved = None\<rparr>]),
       q_entry = (\<lambda>ident typeId. Inr [\<lparr>entry_data = JObj [(''owner'', JStr ''123e4567-e89b-12d3-a456-426614174000'')],
                                    entry_columns = [(''id'', JNum 1)], entry_resolved = None\<rparr>]),
       q_userFields = (\<lambda>typeId. Inr [\<lparr>fr_key = ''owner'', fr_config = JObj []\<rparr>]),
       q_users = (\<lambda>ids. Inl StoreError)\<rparr> ''people'' ''1''
     = ServerError500"
  by (simp add: listEntries_def getEntry_def attachResolvedUsersToEntries_def
      buildUserFields_def collectIds_def idsOfValue_def isUuid_def isHex_def addToSet_def
      js_or_def trim_def isWs_def Let_def)


lemma listEntries_context:
  assumes "q_typeBySlug st slug = Inr (t # ts)" "truthy (member t ''id'')"
      and "q_userFields st (member t ''id'') = Inr fieldRows" "fieldRows \<noteq> []"
      and "listEntries st slug = Ok200 es"
  shows "list_all (carriesContext (buildUserFields fieldRows)) es"
proof -
  from assms(1,5) obtain entries
    where e: "q_entries st (member t ''id'') = Inr entries"
      and a: "attachResolvedUsersToEntries st (member t ''id'') entries = Inr es"
    by (auto simp: listEntries_def split: sum.splits)
  show ?thesis
  proof (cases "entries = []")
    case True
    with a have "es = []" by (simp add: attachResolvedUsersToEntries_def)
    then show ?thesis by simp
  next
    case False
    from attach_context [OF assms(2) False assms(3,4) a] show ?thesis by simp
  qed
qed

lemma getEntry_context:
  assumes "q_typeBySlug st slug = Inr (t # ts)" "truthy (member t ''id'')"
      and "q_userFields st (member t ''id'') = Inr fieldRows" "fieldRows \<noteq> []"
      and "getEntry st slug ident = Ok200 e"
  shows "carriesContext (buildUserFields fieldRows) e"
proof -
  from assms(1,5) obtain e0 rest es
    where a: "attachResolvedUsersToEntries st (member t ''id'') [e0] = Inr es"
      and r: "es = [] \<and> e = e0 \<or> (\<exists>es'. es = e # es')"
    by (auto simp: getEntry_def split: sum.splits list.splits)
  have ne: "[e0] \<noteq> []" by simp
  from attach_context [OF assms(2) ne assms(3,4) a]
  have "length es = 1" "list_all (carriesContext (buildUserFields fieldRows)) es" by simp_all
  with r show ?thesis by auto
qed

text \<open>
  Claim C2, amended. When the content type has at least one \<open>relation_user\<close> field, every
  entry returned by a list or detail fetch carries a resolution context
  \<open>{userFields, usersById}\<close>, with \<open>userFields\<close> the configuration built from those fields;
  when the entries refer to no user, no lookup is made and an entry fresh from the store
  gets the empty \<open>usersById\<close>. When the content type has no \<open>relation_user\<close> field, the
  entries are returned as loaded, without a context. A failure of the batched user lookup
  is not caught: it leaves \<open>attachResolvedUsersToEntries\<close> as an exception and the fetch
  answers with status 500.
\<close>

theorem relation_context_policy:
  "(q_typeBySlug st slug = Inr (t # ts) \<and> truthy (member t ''id'') \<and>
      q_userFields st (member t ''id'') = Inr fieldRows \<and> fieldRows \<noteq> [] \<longrightarrow>
        (listEntries st slug = Ok200 es \<longrightarrow>
           list_all (carriesContext (buildUserFields fieldRows)) es)
        \<and> (getEntry st slug ident = Ok200 e \<longrightarrow>
             carriesContext (buildUserFields fieldRows) e))
   \<and> (truthy typeId \<and> entries \<noteq> [] \<and> q_userFields st typeId = Inr fieldRows \<and>
        fieldRows \<noteq> [] \<and> collectIds (buildUserFields fieldRows) entries = [] \<longrightarrow>
          attachResolvedUsersToEntries st typeId entries
            = Inr (map (attachNoUsers (buildUserFields fieldRows)) entries)
          \<and> (\<forall>x \<in> set entries. entry_resolved x = None \<longrightarrow>
                entry_resolved (attachNoUsers (buildUserFields fieldRows) x)
                  = Some \<lparr>res_userFields = Some (buildUserFields fieldRows),
                           res_usersById = Some []\<rparr>))
   \<and> (q_userFields st typeId = Inr [] \<longrightarrow>
        attachResolvedUsersToEntries st typeId entries = Inr entries)
   \<and> (truthy typeId \<and> entries \<noteq> [] \<and> q_userFields st typeId = Inr fieldRows \<and>
        fieldRows \<noteq> [] \<and> collectIds (buildUserFields fieldRows) entries \<noteq> [] \<and>
        q_users st (collectIds (buildUserFields fieldRows) entries) = Inl err \<longrightarrow>
          attachResolvedUsersToEntries st typeId entries = Inl err)
   \<and> (q_typeBySlug st slug = Inr (t # ts) \<and> q_entries st (member t ''id'') = Inr entries \<and>
        attachResolvedUsersToEntries st (member t ''id'') entries = Inl err \<longrightarrow>
          listEntries st slug = ServerError500)"
proof (intro conjI impI ballI)
  assume "q_typeBySlug st slug = Inr (t # ts) \<and> truthy (member t ''id'') \<and>
      q_userFields st (member t ''id'') = Inr fieldRows \<and> fieldRows \<noteq> []"
    and "listEntries st slug = Ok200 es"
  then show "list_all (carriesContext (buildUserFields fieldRows)) es"
    using listEntries_context by blast
next
  assume "q_typeBySlug st slug = Inr (t # ts) \<and> truthy (member t ''id'') \<and>
      q_userFields st (member t ''id'') = Inr fieldRows \<and> fieldRows \<noteq> []"
    and "getEntry st slug ident = Ok200 e"
  then show "carriesContext (buildUserFields fieldRows) e"
    using getEntry_context by blast
next
  assume "truthy typeId \<and> entries \<noteq> [] \<and> q_userFields st typeId = Inr fieldRows \<and>
        fieldRows \<noteq> [] \<and> collectIds (buildUserFields fieldRows) entries = []"
  then show "attachResolvedUsersToEntries st typeId entries
            = Inr (map (attachNoUsers (buildUserFields fieldRows)) entries)"
    using attach_no_ids by blast
next
  fix x :: entry
  assume "x \<in> set entries" and "entry_resolved x = None"
  then show "entry_resolved (attachNoUsers (buildUserFields fieldRows) x)
                  = Some \<lparr>res_userFields = Some (buildUserFields fieldRows),
                           res_usersById = Some []\<rparr>"
    by (simp add: attachNoUsers_fresh)
next
  assume "q_userFields st typeId = Inr []"
  then show "attachResolvedUsersToEntries st typeId entries = Inr entries"
    by (rule attach_no_fields)
next
  assume "truthy typeId \<and> entries \<noteq> [] \<and> q_userFields st typeId = Inr fieldRows \<and>
        fieldRows \<noteq> [] \<and> collectIds (buildUserFields fieldRows) entries \<noteq> [] \<and>
        q_users st (collectIds (buildUserFields fieldRows) entries) = Inl err"
  then show "attachResolvedUsersToEntries st typeId entries = Inl err"
    using attach_lookup_fails by blast
next
  assume "q_typeBySlug st slug = Inr (t # ts) \<and> q_entries st (member t ''id'') = Inr entries \<and>
        attachResolvedUsersToEntries st (member t ''id'') entries = Inl err"
  then show "listEntries st slug = ServerError500"
    by (simp add: listEntries_def)
qed

theorem relation_context_policy_witness:
  "listEntries
      \<lparr>q_typeBySlug = (\<lambda>slug. Inr [JObj [(''id'', JNum 7)]]),
       q_entries = (\<lambda>typeId. Inr [\<lparr>entry_data = JObj [(''owner'', JStr ''nobody'')],
                                    entry_columns = [(''id'', JNum 1)], entry_resolved = None\<rparr>]),
       q_entry = (\<lambda>ident typeId. Inr [\<lparr>entry_data = JObj [(''owner'', JStr ''nobody'')],
                                    entry_columns = [(''id'', JNum 1)], entry_resolved = None\<rparr>]),
       q_userFields = (\<lambda>typeId. Inr [\<lparr>fr_key = ''owner'', fr_config = JObj [(''multiple'', JBool True)]\<rparr>]),
       q_users = (\<lambda>ids. Inl StoreError)\<rparr> ''people''
     = Ok200 [\<lparr>entry_data = JObj [(''owner'', JStr ''nobody'')],
               entry_columns = [(''id'', JNum 1)],
               entry_resolved = Some \<lparr>res_userFields =
                   Some [(''owner'', \<lparr>uf_multiple = True, uf_display = JStr ''name_email'',
                                       uf_roleFilter = JStr [], uf_onlyActive = True\<rparr>)],
                 res_usersById = Some []\<rparr>\<rparr>]
   \<and> list_all (carriesContext
        [(''owner'', \<lparr>uf_multiple = True, uf_display = JStr ''name_email'',
                       uf_roleFilter = JStr [], uf_onlyActive = True\<rparr>)])
       [\<lparr>entry_data = JObj [(''owner'', JStr ''nobody'')],
               entry_columns = [(''id'', JNum 1)],
               entry_resolved = Some \<lparr>res_userFields =
                   Some [(''owner'', \<lparr>uf_multiple = True, uf_display = JStr ''name_email'',
                                       uf_roleFilter = JStr [], uf_onlyActive = True\<rparr>)],
                 res_usersById = Some []\<rparr>\<rparr>]"
  using relation_context_policy
    [of "\<lparr>q_typeBySlug = (\<lambda>slug. Inr [JObj [(''id'', JNum 7)]]),
       q_entries = (\<lambda>typeId. Inr [\<lparr>entry_data = JObj [(''owner'', JStr ''nobody'')],
                                    entry_columns = [(''id'', JNum 1)], entry_resolved = None\<rparr>]),
       q_entry = (\<lambda>ident typeId. Inr [\<lparr>entry_data = JObj [(''owner'', JStr ''nobody'')],
                                    entry_columns = [(''id'', JNum 1)], entry_resolved = None\<rparr>]),
       q_userFields = (\<lambda>typeId. Inr [\<lparr>fr_key = ''owner'', fr_config = JObj [(''multiple'', JBool True)]\<rparr>]),
       q_users = (\<lambda>ids. Inl StoreError)\<rparr>"
       "''people''" "JObj [(''id'', JNum 7)]" "[]"
       "[\<lparr>fr_key = ''owner'', fr_config = JObj [(''multiple'', JBool True)]\<rparr>]"
       "[\<lparr>entry_data = JObj [(''owner'', JStr ''nobody'')],
               entry_columns = [(''id'', JNum 1)],
               entry_resolved = Some \<lparr>res_userFields =
                   Some [(''owner'', \<lparr>uf_multiple = True, uf_display = JStr ''name_email'',
                                       uf_roleFilter = JStr [], uf_onlyActive = True\<rparr>)],
                 res_usersById = Some []\<rparr>\<rparr>]"
       "''1''"
       "\<lparr>entry_data = JObj [(''owner'', JStr ''nobody'')],
               entry_columns = [(''id'', JNum 1)],
               entry_resolved = Some \<lparr>res_userFields =
                   Some [(''owner'', \<lparr>uf_multiple = True, uf_display = JStr ''name_email'',
                                       uf_roleFilter = JStr [], uf_onlyActive = True\<rparr>)],
                 res_usersById = Some []\<rparr>\<rparr>"
       "JNum 7"
       "[\<lparr>entry_data = JObj [(''owner'', JStr ''nobody'')],
                                    entry_columns = [(''id'', JNum 1)], entry_resolved = None\<rparr>]"
       StoreError]
  by (simp add: listEntries_def attachResolvedUsersToEntries_def
      buildUserFields_def userFieldOf_def collectIds_def idsOfValue_def isUuid_def
      attachNoUsers_def emptyResolution_def
      js_or_def trim_def isWs_def Let_def)

section \<open>Properties of entry normalization\<close>






































end
